theory Spec2Isabelle
  imports Complex_Main
begin

section \<open>Numbers as numpy has them\<close>

text \<open>
  The server computes on numpy float arrays. A numpy float is a real number, one of
  the two infinities, or NaN; numpy arithmetic never raises on them (a division by
  zero or an invalid operation gives an infinity or NaN). A finite result is the
  exact real result: rounding, overflow to an infinity and underflow to zero are not
  modelled. Where the result of the program depends on them (magnitudes so large
  or so small that a product of squared norms leaves the range of the doubles, a
  mean that rounding moves off a constant), the theorems below bound the
  magnitudes by hypothesis, or speak of inputs on which the doubles are exact.
  Zero carries no sign; at each division of the server a zero divisor is the square
  root of a sum of squares, a positive zero.
\<close>

datatype npfloat = Fin real | PInf | NInf | NaN

fun is_finite :: "npfloat \<Rightarrow> bool" where
  "is_finite (Fin x) = True"
| "is_finite PInf = False"
| "is_finite NInf = False"
| "is_finite NaN = False"

fun fneg :: "npfloat \<Rightarrow> npfloat" where
  "fneg (Fin x) = Fin (- x)"
| "fneg PInf = NInf"
| "fneg NInf = PInf"
| "fneg NaN = NaN"

fun fadd :: "npfloat \<Rightarrow> npfloat \<Rightarrow> npfloat" where
  "fadd (Fin x) (Fin y) = Fin (x + y)"
| "fadd NaN b = NaN"
| "fadd a NaN = NaN"
| "fadd PInf NInf = NaN"
| "fadd NInf PInf = NaN"
| "fadd PInf b = PInf"
| "fadd NInf b = NInf"
| "fadd a PInf = PInf"
| "fadd a NInf = NInf"

definition fsub :: "npfloat \<Rightarrow> npfloat \<Rightarrow> npfloat" where
  "fsub a b = fadd a (fneg b)"

text \<open>The sign of an infinity times a finite factor; infinity times zero is NaN.\<close>

fun scale_inf :: "bool \<Rightarrow> real \<Rightarrow> npfloat" where
  "scale_inf pos x =
     (if x = 0 then NaN else if (0 < x) = pos then PInf else NInf)"

fun fmul :: "npfloat \<Rightarrow> npfloat \<Rightarrow> npfloat" where
  "fmul (Fin x) (Fin y) = Fin (x * y)"
| "fmul NaN b = NaN"
| "fmul a NaN = NaN"
| "fmul PInf PInf = PInf"
| "fmul PInf NInf = NInf"
| "fmul NInf PInf = NInf"
| "fmul NInf NInf = PInf"
| "fmul PInf (Fin y) = scale_inf True y"
| "fmul NInf (Fin y) = scale_inf False y"
| "fmul (Fin x) PInf = scale_inf True x"
| "fmul (Fin x) NInf = scale_inf False x"

fun fdiv :: "npfloat \<Rightarrow> npfloat \<Rightarrow> npfloat" where
  "fdiv (Fin x) (Fin y) =
     (if y \<noteq> 0 then Fin (x / y)
      else if x = 0 then NaN else if 0 < x then PInf else NInf)"
| "fdiv NaN b = NaN"
| "fdiv a NaN = NaN"
| "fdiv (Fin x) PInf = Fin 0"
| "fdiv (Fin x) NInf = Fin 0"
| "fdiv PInf (Fin y) = (if 0 \<le> y then PInf else NInf)"
| "fdiv NInf (Fin y) = (if 0 \<le> y then NInf else PInf)"
| "fdiv PInf b = NaN"
| "fdiv NInf b = NaN"

text \<open>\<^verbatim>\<open>np.sqrt\<close>: NaN on a negative argument, no exception.\<close>

fun np_sqrt :: "npfloat \<Rightarrow> npfloat" where
  "np_sqrt (Fin x) = (if 0 \<le> x then Fin (sqrt x) else NaN)"
| "np_sqrt PInf = PInf"
| "np_sqrt NInf = NaN"
| "np_sqrt NaN = NaN"

text \<open>The comparison \<^verbatim>\<open>a >= b\<close>: false as soon as one side is NaN.\<close>

fun fge :: "npfloat \<Rightarrow> npfloat \<Rightarrow> bool" where
  "fge (Fin x) (Fin y) = (y \<le> x)"
| "fge NaN b = False"
| "fge a NaN = False"
| "fge PInf b = True"
| "fge a NInf = True"
| "fge a PInf = False"
| "fge NInf b = False"

text \<open>\<^verbatim>\<open>np.clip(x, lo, hi)\<close> with finite bounds; NaN stays NaN.\<close>

fun np_clip :: "npfloat \<Rightarrow> real \<Rightarrow> real \<Rightarrow> npfloat" where
  "np_clip (Fin x) lo hi = Fin (min (max x lo) hi)"
| "np_clip PInf lo hi = Fin hi"
| "np_clip NInf lo hi = Fin lo"
| "np_clip NaN lo hi = NaN"

fun np_sum :: "npfloat list \<Rightarrow> npfloat" where
  "np_sum [] = Fin 0"
| "np_sum (x # xs) = fadd x (np_sum xs)"

section \<open>Exceptions\<close>

text \<open>
  Every \<^verbatim>\<open>except Exception\<close> of the server catches whatever was raised, so
  the model records only that an exception was raised and which kind.
\<close>

datatype py_exception = ValueError | JSONDecodeError | FileNotFoundError | LoadError

section \<open>The two scipy distances\<close>

text \<open>
  \<^verbatim>\<open>np.dot\<close> of two one-dimensional arrays raises ValueError when their lengths
  differ.
\<close>

definition np_dot :: "npfloat list \<Rightarrow> npfloat list \<Rightarrow> py_exception + npfloat" where
  "np_dot u v =
     (if length u \<noteq> length v then Inl ValueError
      else Inr (np_sum (map2 fmul u v)))"

text \<open>\<^verbatim>\<open>math.sqrt\<close> raises ValueError on a negative argument.\<close>

fun math_sqrt :: "npfloat \<Rightarrow> py_exception + npfloat" where
  "math_sqrt (Fin x) = (if 0 \<le> x then Inr (Fin (sqrt x)) else Inl ValueError)"
| "math_sqrt PInf = Inr PInf"
| "math_sqrt NInf = Inl ValueError"
| "math_sqrt NaN = Inr NaN"

text \<open>
  \<^verbatim>\<open>scipy.spatial.distance.cosine(u, v)\<close>: the three dot products, then
  \<^verbatim>\<open>np.clip(1.0 - uv / math.sqrt(uu * vv), 0.0, 2.0)\<close>. In doubles the product
  \<^verbatim>\<open>uu * vv\<close> overflows or underflows on very large or very small vectors; here
  it is the exact product.
\<close>

definition cosine :: "npfloat list \<Rightarrow> npfloat list \<Rightarrow> py_exception + npfloat" where
  "cosine u v =
     (case np_dot u v of Inl e \<Rightarrow> Inl e | Inr uv \<Rightarrow>
       (case np_dot u u of Inl e \<Rightarrow> Inl e | Inr uu \<Rightarrow>
         (case np_dot v v of Inl e \<Rightarrow> Inl e | Inr vv \<Rightarrow>
           (case math_sqrt (fmul uu vv) of Inl e \<Rightarrow> Inl e | Inr r \<Rightarrow>
              Inr (np_clip (fsub (Fin 1) (fdiv uv r)) 0 2)))))"

text \<open>
  \<^verbatim>\<open>u - v\<close> on one-dimensional arrays: elementwise on equal lengths, an array of
  length one is broadcast against the other, any other pair of lengths raises.
\<close>

definition np_subtract :: "npfloat list \<Rightarrow> npfloat list \<Rightarrow> py_exception + npfloat list" where
  "np_subtract u v =
     (if length u = length v then Inr (map2 fsub u v)
      else if length u = 1 then Inr (map (\<lambda>y. fsub (hd u) y) v)
      else if length v = 1 then Inr (map (\<lambda>x. fsub x (hd v)) u)
      else Inl ValueError)"

text \<open>
  \<^verbatim>\<open>scipy.spatial.distance.euclidean(u, v)\<close> is \<^verbatim>\<open>scipy.linalg.norm(u - v)\<close>,
  which checks its argument with \<^verbatim>\<open>np.asarray_chkfinite\<close> (ValueError on an
  infinity or NaN) before taking the root of the sum of squares. In doubles the
  difference of two very large components can overflow to an infinity; here it is
  the exact difference.
\<close>

definition euclidean :: "npfloat list \<Rightarrow> npfloat list \<Rightarrow> py_exception + npfloat" where
  "euclidean u v =
     (case np_subtract u v of Inl e \<Rightarrow> Inl e | Inr u_v \<Rightarrow>
        if \<not> list_all is_finite u_v then Inl ValueError
        else Inr (np_sqrt (np_sum (map (\<lambda>x. fmul x x) u_v))))"

section \<open>The similarity score\<close>

text \<open>
  \<^verbatim>\<open>compute_similarity(vec1, vec2)\<close>: the body of the \<^verbatim>\<open>try\<close> as a value of
  the sum type, then the \<^verbatim>\<open>except\<close> that turns any exception into 0.
\<close>

definition similarity_body :: "npfloat list \<Rightarrow> npfloat list \<Rightarrow> py_exception + npfloat" where
  "similarity_body vec1 vec2 =
     (case cosine vec1 vec2 of Inl e \<Rightarrow> Inl e | Inr c \<Rightarrow>
        (let cosine_sim = fsub (Fin 1) c
         in (case euclidean vec1 vec2 of Inl e \<Rightarrow> Inl e | Inr euclidean_dist \<Rightarrow>
               Inr (fadd (fmul cosine_sim (Fin (6 / 10)))
                         (fmul (fdiv (Fin 1) (fadd (Fin 1) euclidean_dist)) (Fin (4 / 10)))))))"

definition compute_similarity :: "npfloat list \<Rightarrow> npfloat list \<Rightarrow> npfloat" where
  "compute_similarity vec1 vec2 =
     (case similarity_body vec1 vec2 of Inl e \<Rightarrow> Fin 0 | Inr s \<Rightarrow> s)"

section \<open>Feature extraction\<close>

text \<open>
  An audio file is modelled by what librosa makes of it: either loading or the MFCC
  computation raises, or \<^verbatim>\<open>librosa.feature.mfcc(y=y, sr=sr, n_mfcc=40)\<close> gives the
  coefficient matrix, one row per coefficient channel and one column per frame. The
  file store maps a path to the file there.
\<close>

datatype audio = Undecodable | Decoded "npfloat list list"

type_synonym filesystem = "string \<rightharpoonup> audio"

definition librosa_mfcc :: "filesystem \<Rightarrow> string \<Rightarrow> py_exception + npfloat list list" where
  "librosa_mfcc fs audio_path =
     (case fs audio_path of
        None \<Rightarrow> Inl FileNotFoundError
      | Some Undecodable \<Rightarrow> Inl LoadError
      | Some (Decoded m) \<Rightarrow> Inr m)"

text \<open>
  \<^verbatim>\<open>np.mean\<close> and \<^verbatim>\<open>np.std\<close> of one row (axis 1 of the matrix), in exact
  arithmetic: a constant row has standard deviation 0 here. In doubles the mean of
  a constant row can differ from the constant by rounding, and the standard
  deviation is then tiny and not 0; on a row of zeros the doubles are exact and
  agree with the model.
\<close>

definition np_mean :: "npfloat list \<Rightarrow> npfloat" where
  "np_mean xs = fdiv (np_sum xs) (Fin (real (length xs)))"

definition np_std :: "npfloat list \<Rightarrow> npfloat" where
  "np_std xs =
     np_sqrt (np_mean (map (\<lambda>x. fmul (fsub x (np_mean xs)) (fsub x (np_mean xs))) xs))"

text \<open>
  \<^verbatim>\<open>(mfcc - np.mean(mfcc, axis=1, keepdims=True)) / np.std(mfcc, axis=1, keepdims=True)\<close>
  on one row.
\<close>

definition normalize_row :: "npfloat list \<Rightarrow> npfloat list" where
  "normalize_row xs = map (\<lambda>x. fdiv (fsub x (np_mean xs)) (np_std xs)) xs"

text \<open>
  The text of a fingerprint: \<^verbatim>\<open>json.dumps\<close> of a list of floats, which
  \<^verbatim>\<open>json.loads\<close> reads back as the same list (NaN and the infinities included).
  Any other content of the database column (NULL, text that is no JSON, JSON that
  is no array of numbers) is \<open>OtherText\<close>: decoding or comparing it raises.
\<close>

datatype json_text = JsonArray "npfloat list" | OtherText

definition json_dumps :: "npfloat list \<Rightarrow> json_text" where
  "json_dumps xs = JsonArray xs"

fun json_loads :: "json_text \<Rightarrow> py_exception + npfloat list" where
  "json_loads (JsonArray xs) = Inr xs"
| "json_loads OtherText = Inl JSONDecodeError"

text \<open>\<^verbatim>\<open>get_mfcc(audio_path)\<close>: None when librosa raised, else the JSON text.\<close>

definition get_mfcc :: "filesystem \<Rightarrow> string \<Rightarrow> json_text option" where
  "get_mfcc fs audio_path =
     (case librosa_mfcc fs audio_path of
        Inl e \<Rightarrow> None
      | Inr mfcc \<Rightarrow> Some (json_dumps (concat (map normalize_row mfcc))))"

section \<open>The database\<close>

text \<open>
  Table \<^verbatim>\<open>audio_metadata\<close>: the rows in rowid order, and the counter that
  \<^verbatim>\<open>AUTOINCREMENT\<close> keeps of the largest id handed out.
\<close>

record audio_row =
  row_id :: nat
  filename :: string
  mfcc :: json_text
  ipfs_hash :: string
  blockchain_tx :: string
  timestamp :: nat

record database =
  rows :: "audio_row list"
  seq :: nat

section \<open>The duplicate scan\<close>

text \<open>
  The \<^verbatim>\<open>for\<close> loop of \<^verbatim>\<open>check_audio_similarity\<close> over the fetched
  \<^verbatim>\<open>(filename, mfcc)\<close> pairs. An exception inside the \<^verbatim>\<open>try\<close> is printed
  and the loop goes on; console output is not modelled.
\<close>

fun scan_existing :: "json_text \<Rightarrow> (string \<times> json_text) list \<Rightarrow> npfloat" where
  "scan_existing new_audio_mfcc [] = Fin 0"
| "scan_existing new_audio_mfcc ((name, mfcc_str) # existing_audios) =
     (case json_loads mfcc_str of
        Inl e \<Rightarrow> scan_existing new_audio_mfcc existing_audios
      | Inr stored_mfcc \<Rightarrow>
          (case json_loads new_audio_mfcc of
             Inl e \<Rightarrow> scan_existing new_audio_mfcc existing_audios
           | Inr new_audio_vec \<Rightarrow>
               (let similarity = compute_similarity new_audio_vec stored_mfcc
                in if fge similarity (Fin (1 / 2)) then fmul similarity (Fin 100)
                   else scan_existing new_audio_mfcc existing_audios)))"

definition check_audio_similarity :: "filesystem \<Rightarrow> database \<Rightarrow> string \<Rightarrow> npfloat" where
  "check_audio_similarity fs db audio_path =
     (case get_mfcc fs audio_path of
        None \<Rightarrow> Fin 0
      | Some new_audio_mfcc \<Rightarrow>
          scan_existing new_audio_mfcc (map (\<lambda>r. (filename r, mfcc r)) (rows db)))"

section \<open>Persisting a record\<close>

text \<open>
  \<^verbatim>\<open>store_audio_metadata\<close>: nothing when extraction failed; else the
  \<^verbatim>\<open>DELETE ... WHERE filename = ?\<close> and the \<^verbatim>\<open>INSERT\<close>, whose id is the next of
  the counter and whose timestamp is the clock's \<open>now\<close>.
\<close>

definition sql_delete :: "string \<Rightarrow> database \<Rightarrow> database" where
  "sql_delete name db = db\<lparr>rows := filter (\<lambda>r. filename r \<noteq> name) (rows db)\<rparr>"

definition sql_insert :: "string \<Rightarrow> json_text \<Rightarrow> string \<Rightarrow> string \<Rightarrow> nat \<Rightarrow> database \<Rightarrow> database" where
  "sql_insert name mfcc_vector ipfs tx now db =
     \<lparr>rows = rows db @
        [\<lparr>row_id = Suc (seq db), filename = name, mfcc = mfcc_vector,
          ipfs_hash = ipfs, blockchain_tx = tx, timestamp = now\<rparr>],
      seq = Suc (seq db)\<rparr>"

definition store_audio_metadata ::
  "filesystem \<Rightarrow> nat \<Rightarrow> string \<Rightarrow> string \<Rightarrow> string \<Rightarrow> string \<Rightarrow> database \<Rightarrow> database" where
  "store_audio_metadata fs now name file_path ipfs tx db =
     (case get_mfcc fs file_path of
        None \<Rightarrow> db
      | Some mfcc_vector \<Rightarrow> sql_insert name mfcc_vector ipfs tx now (sql_delete name db))"

section \<open>The upload endpoint\<close>

text \<open>
  What the endpoint takes from outside: werkzeug's \<^verbatim>\<open>secure_filename\<close>, the hex of
  the fresh uuid, the outcome of running the IPFS client on a path, the outcome of the
  ledger's \<^verbatim>\<open>registerAudio(filename, ipfs_hash)\<close> transaction, and the clock.
\<close>

datatype proc_result = ProcRaised | ProcExit int string

record collaborators =
  secure_filename :: "string \<Rightarrow> string"
  uuid_hex :: string
  ipfs_add :: "string \<Rightarrow> proc_result"
  register_audio :: "string \<Rightarrow> string \<Rightarrow> py_exception + string"
  clock :: nat

text \<open>
  \<^verbatim>\<open>str.strip()\<close> removes the leading and trailing characters for which
  \<^verbatim>\<open>str.isspace()\<close> holds. A \<^typ>\<open>char\<close> is a code point below 256; among
  these the white space of Python is 9 to 13, 28 to 32, 133 and 160.
\<close>

definition is_space :: "char \<Rightarrow> bool" where
  "is_space c = (of_char c \<in> {9, 10, 11, 12, 13, 28, 29, 30, 31, 32, 133, 160 :: nat})"

definition strip :: "string \<Rightarrow> string" where
  "strip s = rev (dropWhile is_space (rev (dropWhile is_space s)))"

text \<open>
  \<^verbatim>\<open>upload_to_ipfs(file_path)\<close>: the trimmed output when the client exits with 0,
  None otherwise.
\<close>

definition upload_to_ipfs :: "collaborators \<Rightarrow> string \<Rightarrow> string option" where
  "upload_to_ipfs env file_path =
     (case ipfs_add env file_path of
        ProcRaised \<Rightarrow> None
      | ProcExit returncode out \<Rightarrow> if returncode = 0 then Some (strip out) else None)"

record server =
  files :: filesystem
  db :: database

datatype body =
    Error string
  | ErrorDetails string
  | TooSimilar npfloat
  | AudioStored string string

type_synonym response = "body \<times> nat"

definition UPLOAD_FOLDER :: string where
  "UPLOAD_FOLDER = ''uploaded_audio''"

text \<open>
  \<^verbatim>\<open>upload_audio()\<close>. The request is the uploaded file, if any: its name and its
  content.
\<close>

definition upload_audio ::
  "collaborators \<Rightarrow> (string \<times> audio) option \<Rightarrow> server \<Rightarrow> response \<times> server" where
  "upload_audio env request s =
     (case request of
        None \<Rightarrow> ((Error ''No file uploaded'', 400), s)
      | Some (file_filename, content) \<Rightarrow>
         (let name = secure_filename env file_filename;
              unique_filename = uuid_hex env @ ''_'' @ name;
              file_path = UPLOAD_FOLDER @ ''/'' @ unique_filename;
              s1 = s\<lparr>files := (files s)(file_path \<mapsto> content)\<rparr>;
              similarity = check_audio_similarity (files s1) (db s1) file_path
          in if fge similarity (Fin 75)
             then ((TooSimilar similarity, 400), s1\<lparr>files := (files s1)(file_path := None)\<rparr>)
             else
              (case upload_to_ipfs env file_path of
                 None \<Rightarrow> ((Error ''IPFS upload failed'', 500), s1)
               | Some ipfs \<Rightarrow>
                  if ipfs = [] then ((Error ''IPFS upload failed'', 500), s1)
                  else
                   (case register_audio env name ipfs of
                      Inl e \<Rightarrow> ((ErrorDetails ''Blockchain registration failed'', 500), s1)
                    | Inr tx_hash_hex \<Rightarrow>
                       ((AudioStored ipfs tx_hash_hex, 200),
                        s1\<lparr>db := store_audio_metadata (files s1) (clock env)
                                   unique_filename file_path ipfs tx_hash_hex (db s1)\<rparr>)))))"

section \<open>The values bound inside the upload endpoint\<close>

text \<open>
  Names for the local variables of \<^verbatim>\<open>upload_audio\<close>, so that statements about
  the endpoint can speak of them: \<^verbatim>\<open>unique_filename\<close>, \<^verbatim>\<open>file_path\<close>, the
  server after \<^verbatim>\<open>file.save(file_path)\<close>, and the value that
  \<^verbatim>\<open>check_audio_similarity(file_path)\<close> returns there.
\<close>

definition unique_filename_of :: "collaborators \<Rightarrow> string \<Rightarrow> string" where
  "unique_filename_of env file_filename = uuid_hex env @ ''_'' @ secure_filename env file_filename"

definition file_path_of :: "collaborators \<Rightarrow> string \<Rightarrow> string" where
  "file_path_of env file_filename = UPLOAD_FOLDER @ ''/'' @ unique_filename_of env file_filename"

definition save_upload :: "collaborators \<Rightarrow> string \<Rightarrow> audio \<Rightarrow> server \<Rightarrow> server" where
  "save_upload env file_filename content s =
     s\<lparr>files := (files s)(file_path_of env file_filename \<mapsto> content)\<rparr>"

definition reported_similarity :: "collaborators \<Rightarrow> string \<Rightarrow> audio \<Rightarrow> server \<Rightarrow> npfloat" where
  "reported_similarity env file_filename content s =
     check_audio_similarity (files (save_upload env file_filename content s))
       (db (save_upload env file_filename content s)) (file_path_of env file_filename)"

section \<open>One turn of the scan loop\<close>

text \<open>
  The value of \<^verbatim>\<open>similarity\<close> in one turn of the loop of
  \<^verbatim>\<open>check_audio_similarity\<close>; there is none when one of the two
  \<^verbatim>\<open>json.loads\<close> raised. The turn returns when the value is at least 0.50.
\<close>

definition entry_similarity :: "json_text \<Rightarrow> json_text \<Rightarrow> npfloat option" where
  "entry_similarity new_audio_mfcc mfcc_str =
     (case json_loads mfcc_str of
        Inl e \<Rightarrow> None
      | Inr stored_mfcc \<Rightarrow>
          (case json_loads new_audio_mfcc of
             Inl e \<Rightarrow> None
           | Inr new_audio_vec \<Rightarrow> Some (compute_similarity new_audio_vec stored_mfcc)))"

definition reaches_threshold :: "json_text \<Rightarrow> json_text \<Rightarrow> bool" where
  "reaches_threshold new_audio_mfcc mfcc_str =
     (case entry_similarity new_audio_mfcc mfcc_str of
        None \<Rightarrow> False
      | Some similarity \<Rightarrow> fge similarity (Fin (1 / 2)))"

text \<open>
  A comparison that goes wrong in a turn: a \<^verbatim>\<open>json.loads\<close> raises, a scipy
  distance raises inside \<^verbatim>\<open>compute_similarity\<close> (vectors of unequal length, a
  difference that is not finite), or the score is NaN.
\<close>

definition comparison_error :: "json_text \<Rightarrow> json_text \<Rightarrow> bool" where
  "comparison_error new_audio_mfcc mfcc_str =
     (case json_loads mfcc_str of
        Inl e \<Rightarrow> True
      | Inr stored_mfcc \<Rightarrow>
          (case json_loads new_audio_mfcc of
             Inl e \<Rightarrow> True
           | Inr new_audio_vec \<Rightarrow>
               (case similarity_body new_audio_vec stored_mfcc of
                  Inl e \<Rightarrow> True
                | Inr similarity \<Rightarrow> similarity = NaN)))"

section \<open>Sequences of stores\<close>

text \<open>
  The table as \<^verbatim>\<open>CREATE TABLE IF NOT EXISTS\<close> leaves a new database, and a
  sequence of calls of \<^verbatim>\<open>store_audio_metadata\<close>, the only writer of the table.
  Each call has its own file store, time, filename, path, IPFS hash and transaction
  hash. The \<^verbatim>\<open>UNIQUE\<close> constraint of the \<^verbatim>\<open>filename\<close> column is not modelled:
  the only \<^verbatim>\<open>INSERT\<close> follows a \<^verbatim>\<open>DELETE\<close> of the same filename.
\<close>

type_synonym store_call = "filesystem \<times> nat \<times> string \<times> string \<times> string \<times> string"

fun run_stores :: "store_call list \<Rightarrow> database \<Rightarrow> database" where
  "run_stores [] table = table"
| "run_stores ((fs, now, name, file_path, ipfs, tx) # calls) table =
     run_stores calls (store_audio_metadata fs now name file_path ipfs tx table)"

definition empty_table :: database where
  "empty_table = \<lparr>rows = [], seq = 0\<rparr>"

section \<open>Example inputs\<close>

text \<open>
  Concrete inputs at which the theorems below are evaluated: a stored row with a
  given fingerprint, collaborators whose IPFS upload and ledger registration
  succeed, the same with the IPFS command exiting with status 1, a server whose
  table holds one fingerprint, and a server whose table holds the fingerprint of
  the file uploaded in the examples.
\<close>

definition example_row :: "nat \<Rightarrow> string \<Rightarrow> npfloat list \<Rightarrow> audio_row" where
  "example_row i name v =
     \<lparr>row_id = i, filename = name, mfcc = json_dumps v, ipfs_hash = ''Qm0'',
      blockchain_tx = ''0x0'', timestamp = 0\<rparr>"

definition example_env :: collaborators where
  "example_env =
     \<lparr>secure_filename = (\<lambda>n. n), uuid_hex = ''u1'', ipfs_add = (\<lambda>p. ProcExit 0 ''Qm1''),
      register_audio = (\<lambda>n h. Inr ''0x1''), clock = 1\<rparr>"

definition ipfs_down_env :: collaborators where
  "ipfs_down_env = example_env\<lparr>ipfs_add := (\<lambda>p. ProcExit 1 [])\<rparr>"

definition example_server :: server where
  "example_server =
     \<lparr>files = Map.empty, db = \<lparr>rows = [example_row 1 ''old.wav'' [Fin (- 7), Fin 1]], seq = 1\<rparr>\<rparr>"

definition twin_server :: server where
  "twin_server =
     \<lparr>files = Map.empty, db = \<lparr>rows = [example_row 1 ''old.wav'' [Fin (- 1), Fin 1]], seq = 1\<rparr>\<rparr>"

section \<open>The blend as the specification writes it\<close>

text \<open>
  The two distances of the specification on vectors of real numbers, as
  mathematics defines them: the cosine distance \<open>1 - a.b / sqrt ((a.a) (b.b))\<close> and
  the Euclidean distance \<open>sqrt (sum (a_i - b_i)^2)\<close>; and the specification's formula
  \<^verbatim>\<open>score = 0.6 * cos + 0.4 * (1 / (1 + d))\<close> with
  \<^verbatim>\<open>cos = 1 - cosineDistance(a,b)\<close>. They are written from the specification's
  words and compared below with \<^const>\<open>compute_similarity\<close>, which is written from
  the source and calls scipy.
\<close>

definition cosine_distance :: "real list \<Rightarrow> real list \<Rightarrow> real" where
  "cosine_distance xs ys =
     1 - sum_list (map2 (*) xs ys)
           / sqrt (sum_list (map2 (*) xs xs) * sum_list (map2 (*) ys ys))"

definition euclidean_distance :: "real list \<Rightarrow> real list \<Rightarrow> real" where
  "euclidean_distance xs ys = sqrt (sum_list (map2 (\<lambda>x y. (x - y) * (x - y)) xs ys))"

definition blended_score :: "real \<Rightarrow> real \<Rightarrow> real" where
  "blended_score cosine_dist euclidean_dist =
     6 / 10 * (1 - cosine_dist) + 4 / 10 * (1 / (1 + euclidean_dist))"

text \<open>
  Vectors on which no intermediate value of the score leaves the range of the
  normal doubles: at most \<open>10^50\<close> entries, none above \<open>10^50\<close> in magnitude, one of
  magnitude at least \<open>10^-50\<close>. A squared norm then lies between \<open>10^-100\<close> and
  \<open>10^150\<close>, a product of two squared norms between \<open>10^-200\<close> and \<open>10^300\<close>, and
  a sum of squared differences below \<open>10^151\<close>.
\<close>

definition within_range :: "real list \<Rightarrow> bool" where
  "within_range xs =
     (length xs \<le> 10 ^ 50 \<and> (\<forall>x\<in>set xs. \<bar>x\<bar> \<le> 10 ^ 50) \<and> (\<exists>x\<in>set xs. 1 / 10 ^ 50 \<le> \<bar>x\<bar>))"

section \<open>Symmetry of the arithmetic and of the two distances\<close>

text \<open>
  Swapping the two arguments commutes every product of the dot product and negates
  every component of the difference; the squares of the norm do not see the sign.
\<close>

lemma fmul_commute: "fmul a b = fmul b a"
  by (cases a; cases b) (auto simp: mult.commute)

lemma fneg_fsub: "fneg (fsub a b) = fsub b a"
  by (cases a; cases b) (auto simp: fsub_def)

lemma fmul_fneg_sq: "fmul (fneg a) (fneg a) = fmul a a"
  by (cases a) auto

lemma is_finite_fneg: "is_finite (fneg a) = is_finite a"
  by (cases a) auto

lemma map2_fmul_commute: "length u = length v \<Longrightarrow> map2 fmul u v = map2 fmul v u"
  by (induction u v rule: list_induct2) (auto simp: fmul_commute)

lemma np_dot_commute: "np_dot u v = np_dot v u"
  by (auto simp: np_dot_def map2_fmul_commute)

lemma np_dot_self: "np_dot u u = Inr (np_sum (map2 fmul u u))"
  by (simp add: np_dot_def)

lemma cosine_commute: "cosine u v = cosine v u"
  unfolding cosine_def np_dot_commute [of u v] np_dot_self
  by (cases "np_dot v u") (simp_all add: fmul_commute [of "np_sum (map2 fmul u u)"])

lemma map2_fsub_fneg: "length u = length v \<Longrightarrow> map2 fsub v u = map fneg (map2 fsub u v)"
  by (induction u v rule: list_induct2) (auto simp: fneg_fsub)

lemma map_fneg_left: "map fneg (map (\<lambda>y. fsub c y) v) = map (\<lambda>x. fsub x c) v"
  by (induction v) (auto simp: fneg_fsub)

lemma map_fneg_right: "map fneg (map (\<lambda>x. fsub x c) u) = map (\<lambda>y. fsub c y) u"
  by (induction u) (auto simp: fneg_fsub)

lemma np_subtract_swap:
  "np_subtract v u = (case np_subtract u v of Inl e \<Rightarrow> Inl e | Inr d \<Rightarrow> Inr (map fneg d))"
proof (cases "length u = length v")
  case True
  have sym: "length v = length u"
    using True by (rule sym)
  show ?thesis
    unfolding np_subtract_def if_P [OF True] if_P [OF sym] sum.case map2_fsub_fneg [OF True] ..
next
  case False
  have ne: "length v \<noteq> length u"
    using False by (rule not_sym)
  show ?thesis
  proof (cases "length u = 1")
    case u1: True
    have v1: "length v \<noteq> 1"
      using ne u1 by simp
    show ?thesis
      unfolding np_subtract_def if_not_P [OF False] if_not_P [OF ne] if_P [OF u1]
        if_not_P [OF v1] sum.case map_fneg_left ..
  next
    case u1: False
    show ?thesis
    proof (cases "length v = 1")
      case v1: True
      show ?thesis
        unfolding np_subtract_def if_not_P [OF False] if_not_P [OF ne] if_not_P [OF u1]
          if_P [OF v1] sum.case map_fneg_right ..
    next
      case v1: False
      show ?thesis
        unfolding np_subtract_def if_not_P [OF False] if_not_P [OF ne] if_not_P [OF u1]
          if_not_P [OF v1] sum.case ..
    qed
  qed
qed

lemma list_all_finite_fneg: "list_all is_finite (map fneg d) = list_all is_finite d"
  by (induction d) (auto simp: is_finite_fneg)

lemma squares_fneg: "map (\<lambda>x. fmul x x) (map fneg d) = map (\<lambda>x. fmul x x) d"
  by (induction d) (auto simp: fmul_fneg_sq)

lemma euclidean_commute: "euclidean v u = euclidean u v"
proof (cases "np_subtract u v")
  case (Inl e)
  have "np_subtract v u = Inl e"
    unfolding np_subtract_swap [where u = u and v = v] Inl sum.case ..
  then show ?thesis
    unfolding euclidean_def Inl sum.case by (simp only: sum.case)
next
  case (Inr d)
  have "np_subtract v u = Inr (map fneg d)"
    unfolding np_subtract_swap [where u = u and v = v] Inr sum.case ..
  then show ?thesis
    unfolding euclidean_def Inr sum.case
    by (simp only: sum.case list_all_finite_fneg squares_fneg)
qed

lemma similarity_body_commute: "similarity_body u v = similarity_body v u"
  unfolding similarity_body_def cosine_commute [of u v] euclidean_commute [of u v] ..

text \<open>
  C10: for every pair of vectors \<open>a\<close> and \<open>b\<close> (of equal length or not, finite or not),
  \<^verbatim>\<open>compute_similarity(a, b)\<close> equals \<^verbatim>\<open>compute_similarity(b, a)\<close>: the blended
  score is symmetric in its two arguments. When the two lengths differ both calls
  raise inside and both return 0.
\<close>

theorem compute_similarity_symmetric:
  "compute_similarity a b = compute_similarity b a"
  unfolding compute_similarity_def similarity_body_commute [of a b] ..

section \<open>The score on finite vectors\<close>

text \<open>
  On vectors of finite numbers of one length neither distance raises: the dot
  products and the squared differences are finite sums, and the argument of each
  square root is a sum of squares.
\<close>

lemma dot_Fin:
  "np_sum (map2 fmul (map Fin xs) (map Fin ys)) = Fin (sum_list (map2 (*) xs ys))"
  by (induction xs ys rule: list_induct2') simp_all

lemma np_dot_Fin:
  "length xs = length ys \<Longrightarrow>
   np_dot (map Fin xs) (map Fin ys) = Inr (Fin (sum_list (map2 (*) xs ys)))"
  unfolding np_dot_def dot_Fin by simp

lemma sum_squares_nonneg: "0 \<le> sum_list (map2 (*) xs xs)" for xs :: "real list"
  by (induction xs) simp_all

lemma sum_squares_pos:
  "\<exists>x\<in>set xs. x \<noteq> 0 \<Longrightarrow> 0 < sum_list (map2 (*) xs xs)" for xs :: "real list"
proof (induction xs)
  case Nil
  then show ?case by simp
next
  case (Cons x xs)
  show ?case
  proof (cases "x = 0")
    case True
    with Cons show ?thesis by simp
  next
    case False
    then have "0 < x * x" by (cases "0 < x") (simp_all add: zero_less_mult_iff)
    then have "0 < x * x + sum_list (map2 (*) xs xs)"
      using sum_squares_nonneg [of xs] by (rule add_pos_nonneg)
    then show ?thesis by simp
  qed
qed

lemma cosine_Fin:
  assumes "length xs = length ys"
  shows "cosine (map Fin xs) (map Fin ys) =
           Inr (np_clip (fsub (Fin 1) (fdiv (Fin (sum_list (map2 (*) xs ys)))
                  (Fin (sqrt (sum_list (map2 (*) xs xs) * sum_list (map2 (*) ys ys)))))) 0 2)"
proof -
  have uv: "np_dot (map Fin xs) (map Fin ys) = Inr (Fin (sum_list (map2 (*) xs ys)))"
    using assms by (rule np_dot_Fin)
  have uu: "np_dot (map Fin xs) (map Fin xs) = Inr (Fin (sum_list (map2 (*) xs xs)))"
    by (rule np_dot_Fin) (rule refl)
  have vv: "np_dot (map Fin ys) (map Fin ys) = Inr (Fin (sum_list (map2 (*) ys ys)))"
    by (rule np_dot_Fin) (rule refl)
  have root: "math_sqrt (fmul (Fin (sum_list (map2 (*) xs xs))) (Fin (sum_list (map2 (*) ys ys))))
                = Inr (Fin (sqrt (sum_list (map2 (*) xs xs) * sum_list (map2 (*) ys ys))))"
    by (simp add: sum_squares_nonneg)
  show ?thesis
    unfolding cosine_def uv uu vv sum.case root ..
qed

lemma diff_finite: "list_all is_finite (map2 fsub (map Fin xs) (map Fin ys))"
  by (induction xs ys rule: list_induct2') (simp_all add: fsub_def)

lemma sq_diff_Fin:
  "np_sum (map (\<lambda>x. fmul x x) (map2 fsub (map Fin xs) (map Fin ys)))
     = Fin (sum_list (map2 (\<lambda>x y. (x - y) * (x - y)) xs ys))"
  by (induction xs ys rule: list_induct2') (simp_all add: fsub_def)

lemma sq_diff_nonneg: "0 \<le> sum_list (map2 (\<lambda>x y. (x - y) * (x - y)) xs ys)"
  for xs :: "real list"
  by (induction xs ys rule: list_induct2') simp_all

lemma sq_diff_self: "sum_list (map2 (\<lambda>x y. (x - y) * (x - y)) xs xs) = 0"
  for xs :: "real list"
  by (induction xs) simp_all

lemma euclidean_Fin:
  assumes "length xs = length ys"
  shows "euclidean (map Fin xs) (map Fin ys)
           = Inr (Fin (sqrt (sum_list (map2 (\<lambda>x y. (x - y) * (x - y)) xs ys))))"
proof -
  have h: "np_subtract (map Fin xs) (map Fin ys) = Inr (map2 fsub (map Fin xs) (map Fin ys))"
    using assms by (simp add: np_subtract_def)
  show ?thesis
    unfolding euclidean_def h
    by (simp only: sum.case diff_finite sq_diff_Fin not_True_eq_False if_False
          np_sqrt.simps sq_diff_nonneg if_True)
qed

text \<open>
  The inequality of Cauchy and Schwarz on lists: the quotient under the cosine
  distance lies between -1 and 1, so that scipy's clip to the interval from 0 to 2
  changes nothing.
\<close>

lemma cross_term:
  fixes x y D A B :: real
  assumes A: "0 \<le> A" and B: "0 \<le> B" and IH: "D\<^sup>2 \<le> A * B"
  shows "2 * (x * y * D) \<le> x * x * B + y * y * A"
proof (cases "A = 0")
  case True
  with IH have "D\<^sup>2 \<le> 0" by simp
  then have "D = 0" by simp
  with True B show ?thesis by simp
next
  case False
  with A have Apos: "0 < A" by simp
  have "0 \<le> (x * D - y * A)\<^sup>2" by simp
  then have "2 * (x * D) * (y * A) \<le> x\<^sup>2 * D\<^sup>2 + y\<^sup>2 * A\<^sup>2"
    by (simp add: power2_diff power_mult_distrib)
  also have "\<dots> \<le> x\<^sup>2 * (A * B) + y\<^sup>2 * A\<^sup>2"
    using IH by (simp add: mult_left_mono)
  finally have "A * (2 * (x * y * D)) \<le> A * (x * x * B + y * y * A)"
    by (simp add: algebra_simps power2_eq_square)
  then show ?thesis using Apos by (simp only: mult_le_cancel_left_pos)
qed

lemma cauchy_schwarz_lists:
  fixes xs ys :: "real list"
  assumes "length xs = length ys"
  shows "(sum_list (map2 (*) xs ys))\<^sup>2
           \<le> sum_list (map2 (*) xs xs) * sum_list (map2 (*) ys ys)"
  using assms
proof (induction xs ys rule: list_induct2)
  case Nil
  show ?case by simp
next
  case (Cons x xs y ys)
  define D where "D = sum_list (map2 (*) xs ys)"
  define A where "A = sum_list (map2 (*) xs xs)"
  define B where "B = sum_list (map2 (*) ys ys)"
  have A: "0 \<le> A" unfolding A_def by (rule sum_squares_nonneg)
  have B: "0 \<le> B" unfolding B_def by (rule sum_squares_nonneg)
  have IH: "D\<^sup>2 \<le> A * B" unfolding D_def A_def B_def by (rule Cons.IH)
  have cross: "2 * (x * y * D) \<le> x * x * B + y * y * A"
    using A B IH by (rule cross_term)
  have "(x * y + D)\<^sup>2 = x * x * (y * y) + 2 * (x * y * D) + D\<^sup>2"
    by (simp add: power2_sum power2_eq_square algebra_simps)
  also have "\<dots> \<le> x * x * (y * y) + (x * x * B + y * y * A) + A * B"
    using cross IH by simp
  also have "\<dots> = (x * x + A) * (y * y + B)"
    by (simp add: algebra_simps)
  finally show ?case by (simp add: D_def A_def B_def)
qed

lemma quotient_bounds:
  fixes D A B :: real
  assumes "D\<^sup>2 \<le> A * B" and "0 < A * B"
  shows "\<bar>D / sqrt (A * B)\<bar> \<le> 1"
proof -
  have "sqrt (D\<^sup>2) \<le> sqrt (A * B)" using assms(1) by (rule real_sqrt_le_mono)
  then have "\<bar>D\<bar> \<le> sqrt (A * B)" by simp
  moreover have "0 < sqrt (A * B)" using assms(2) by simp
  ultimately show ?thesis by simp
qed

lemma cosine_distance_bounds:
  fixes xs ys :: "real list"
  assumes "length xs = length ys"
      and "0 < sum_list (map2 (*) xs xs)" and "0 < sum_list (map2 (*) ys ys)"
  shows "0 \<le> cosine_distance xs ys \<and> cosine_distance xs ys \<le> 2"
proof -
  have pos: "0 < sum_list (map2 (*) xs xs) * sum_list (map2 (*) ys ys)"
    using assms(2,3) by simp
  have "\<bar>sum_list (map2 (*) xs ys)
          / sqrt (sum_list (map2 (*) xs xs) * sum_list (map2 (*) ys ys))\<bar> \<le> 1"
    using cauchy_schwarz_lists [OF assms(1)] pos by (rule quotient_bounds)
  then have "- 1 \<le> sum_list (map2 (*) xs ys)
          / sqrt (sum_list (map2 (*) xs xs) * sum_list (map2 (*) ys ys))"
    and "sum_list (map2 (*) xs ys)
          / sqrt (sum_list (map2 (*) xs xs) * sum_list (map2 (*) ys ys)) \<le> 1"
    by linarith+
  then show ?thesis unfolding cosine_distance_def by auto
qed

lemma in_range_pos:
  "within_range xs \<Longrightarrow> 0 < sum_list (map2 (*) xs xs)"
proof -
  assume "within_range xs"
  then obtain x where x: "x \<in> set xs" and lo: "1 / 10 ^ 50 \<le> \<bar>x\<bar>"
    unfolding within_range_def by blast
  have "(0::real) < 1 / 10 ^ 50" by simp
  with lo have "x \<noteq> 0" by auto
  with x show ?thesis
  proof (induction xs)
    case Nil
    then show ?case by simp
  next
    case (Cons a xs)
    show ?case
    proof (cases "a = 0")
      case True
      with Cons show ?thesis by auto
    next
      case False
      then have "0 < a * a" by (cases "0 < a") (simp_all add: zero_less_mult_iff)
      then have "0 < a * a + sum_list (map2 (*) xs xs)"
        using sum_squares_nonneg [of xs] by (rule add_pos_nonneg)
      then show ?thesis by simp
    qed
  qed
qed

text \<open>
  The definitions that an evaluation of the score unfolds.
\<close>

lemmas score_defs = compute_similarity_def similarity_body_def cosine_def euclidean_def
  np_dot_def np_subtract_def fsub_def

text \<open>
  The two scipy distances and the score in closed form, and the score when a
  component is not finite: the difference then has a component that is not finite,
  and scipy raises.
\<close>

lemma cosine_closed:
  assumes "length xs = length ys"
      and "0 < sum_list (map2 (*) xs xs)" and "0 < sum_list (map2 (*) ys ys)"
  shows "cosine (map Fin xs) (map Fin ys) = Inr (Fin (cosine_distance xs ys))"
proof -
  have nz: "sqrt (sum_list (map2 (*) xs xs) * sum_list (map2 (*) ys ys)) \<noteq> 0"
    using assms(2,3) by simp
  from cosine_distance_bounds [OF assms]
  have lo: "0 \<le> cosine_distance xs ys" and hi: "cosine_distance xs ys \<le> 2"
    by simp_all
  have quot: "fsub (Fin 1) (fdiv (Fin (sum_list (map2 (*) xs ys)))
                (Fin (sqrt (sum_list (map2 (*) xs xs) * sum_list (map2 (*) ys ys)))))
              = Fin (cosine_distance xs ys)"
    using nz by (simp add: fsub_def cosine_distance_def)
  have "np_clip (Fin (cosine_distance xs ys)) 0 2 = Fin (cosine_distance xs ys)"
    using lo hi by simp
  then show ?thesis
    unfolding cosine_Fin [OF assms(1)] quot by simp
qed

lemma euclidean_closed:
  "length xs = length ys \<Longrightarrow>
   euclidean (map Fin xs) (map Fin ys) = Inr (Fin (euclidean_distance xs ys))"
  unfolding euclidean_distance_def by (rule euclidean_Fin)

lemma euclidean_distance_nonneg: "0 \<le> euclidean_distance xs ys"
  unfolding euclidean_distance_def using sq_diff_nonneg [of xs ys] by simp

lemma similarity_closed:
  assumes "cosine a b = Inr (Fin c)" and "euclidean a b = Inr (Fin d)" and "0 \<le> d"
  shows "similarity_body a b = Inr (Fin (blended_score c d))"
proof -
  have "1 + d \<noteq> 0" using assms(3) by simp
  then show ?thesis
    unfolding similarity_body_def assms(1,2)
    by (simp add: Let_def fsub_def blended_score_def mult.commute)
qed

lemma score_closed:
  assumes "length xs = length ys" and "within_range xs" and "within_range ys"
  shows "compute_similarity (map Fin xs) (map Fin ys)
           = Fin (blended_score (cosine_distance xs ys) (euclidean_distance xs ys))"
proof -
  have c: "cosine (map Fin xs) (map Fin ys) = Inr (Fin (cosine_distance xs ys))"
    using assms(1) in_range_pos [OF assms(2)] in_range_pos [OF assms(3)]
    by (rule cosine_closed)
  have d: "euclidean (map Fin xs) (map Fin ys) = Inr (Fin (euclidean_distance xs ys))"
    using assms(1) by (rule euclidean_closed)
  show ?thesis
    unfolding compute_similarity_def
      similarity_closed [OF c d euclidean_distance_nonneg] sum.case ..
qed

lemma fsub_finite: "is_finite (fsub x y) \<Longrightarrow> is_finite x \<and> is_finite y"
  by (cases x; cases y) (auto simp: fsub_def)

lemma diff_finite_conv:
  "length a = length b \<Longrightarrow> list_all is_finite (map2 fsub a b) \<Longrightarrow>
   list_all is_finite a \<and> list_all is_finite b"
  by (induction a b rule: list_induct2) (auto dest: fsub_finite)

lemma nonfinite_raises:
  assumes "length a = length b" and "\<not> (list_all is_finite a \<and> list_all is_finite b)"
  shows "euclidean a b = Inl ValueError"
proof -
  have "\<not> list_all is_finite (map2 fsub a b)"
    using assms diff_finite_conv by blast
  then show ?thesis
    using assms(1) by (simp add: euclidean_def np_subtract_def)
qed

lemma nonfinite_score:
  assumes "length a = length b" and "\<not> (list_all is_finite a \<and> list_all is_finite b)"
  shows "compute_similarity a b = Fin 0"
  unfolding compute_similarity_def similarity_body_def nonfinite_raises [OF assms]
  by (cases "cosine a b") simp_all

text \<open>
  C2 as it is stated fails: a fingerprint of NaN (what \<^verbatim>\<open>get_mfcc\<close> returns for
  channels of zeros) against a finite fingerprint of the same length has no
  Euclidean distance, scipy raises on the NaN difference, and
  \<^verbatim>\<open>compute_similarity\<close> returns 0; the cosine distance is NaN, and a blend of it
  would be NaN.
\<close>

theorem nan_fingerprint_scores_zero:
  "compute_similarity [NaN, NaN] [Fin (- 1), Fin 1] = Fin 0
   \<and> cosine [NaN, NaN] [Fin (- 1), Fin 1] = Inr NaN
   \<and> euclidean [NaN, NaN] [Fin (- 1), Fin 1] = Inl ValueError"
  by (simp add: score_defs)

text \<open>
  C2, amended: for every pair of equal-length vectors \<open>xs\<close> and \<open>ys\<close> of finite
  numbers within the range above, the score of \<^verbatim>\<open>compute_similarity\<close> is
  \<open>0.6 * (1 - c) + 0.4 * (1 / (1 + d))\<close>, with \<open>c\<close> the cosine distance and \<open>d\<close> the
  Euclidean distance of the two vectors; and for every pair of equal-length
  vectors \<open>a\<close> and \<open>b\<close> of which one has a NaN or infinite component the score
  is 0.
\<close>

theorem compute_similarity_is_blend:
  "(length xs = length ys \<and> within_range xs \<and> within_range ys \<longrightarrow>
      compute_similarity (map Fin xs) (map Fin ys)
        = Fin (blended_score (cosine_distance xs ys) (euclidean_distance xs ys)))
   \<and> (length a = length b \<and> \<not> (list_all is_finite a \<and> list_all is_finite b) \<longrightarrow>
        compute_similarity a b = Fin 0)"
  using score_closed nonfinite_score by blast

text \<open>
  The vectors (-1, 1) and (-7, 1) have cosine distance 1/5 and Euclidean distance
  6, and score 94/175; a NaN fingerprint scores 0.
\<close>

theorem compute_similarity_is_blend_witness:
  "compute_similarity [Fin (- 1), Fin 1] [Fin (- 7), Fin 1] = Fin (94 / 175)
   \<and> cosine_distance [- 1, 1] [- 7, 1] = 1 / 5
   \<and> euclidean_distance [- 1, 1] [- 7, 1] = 6
   \<and> compute_similarity [NaN, NaN] [Fin (- 1), Fin 1] = Fin 0"
  using compute_similarity_is_blend [of "[- 1, 1]" "[- 7, 1]" "[NaN, NaN]" "[Fin (- 1), Fin 1]"]
  by (simp add: within_range_def cosine_distance_def euclidean_distance_def blended_score_def)

text \<open>
  C7 as it is stated fails: the fingerprint whose one entry is the infinity is
  non-zero and NaN-free, and its score against itself is 0 (the difference of the
  infinity and itself is NaN, on which scipy raises).
\<close>

theorem infinite_fingerprint_self_similarity:
  "compute_similarity [PInf] [PInf] = Fin 0 \<and> PInf \<noteq> NaN \<and> PInf \<noteq> Fin 0"
  by (simp add: score_defs)

text \<open>
  C7, amended: for every fingerprint \<open>xs\<close> of finite numbers within the range above
  (so not the zero vector), the score of \<open>xs\<close> against itself is 1: the cosine
  distance is 0, the Euclidean distance is 0, and the blend is
  \<open>0.6 * 1 + 0.4 * 1\<close>. Rounding is not modelled, so the score is exactly 1 here.
\<close>

theorem self_similarity_is_one:
  assumes "within_range xs"
  shows "compute_similarity (map Fin xs) (map Fin xs) = Fin 1"
proof -
  have pos: "0 < sum_list (map2 (*) xs xs)"
    using assms by (rule in_range_pos)
  have "cosine_distance xs xs = 0"
    using pos by (simp add: cosine_distance_def)
  moreover have "euclidean_distance xs xs = 0"
    by (simp add: euclidean_distance_def sq_diff_self)
  ultimately show ?thesis
    unfolding score_closed [OF refl assms assms] by (simp add: blended_score_def)
qed

theorem self_similarity_is_one_witness:
  "within_range [3, 0] \<and> compute_similarity [Fin 3, Fin 0] [Fin 3, Fin 0] = Fin 1"
  using self_similarity_is_one [of "[3, 0]"] by (simp add: within_range_def)

section \<open>The scan, turn by turn\<close>

text \<open>
  One turn either returns the entry's score times 100 or leaves the result to the
  rest of the list; entries that do not reach the threshold can be dropped from
  the list without changing the result.
\<close>

lemma scan_step:
  "scan_existing new ((name, m) # rest) =
     (if reaches_threshold new m then fmul (the (entry_similarity new m)) (Fin 100)
      else scan_existing new rest)"
  by (simp add: reaches_threshold_def entry_similarity_def Let_def split: sum.splits)

lemma scan_skip_prefix:
  "\<forall>e\<in>set pre. \<not> reaches_threshold new (snd e) \<Longrightarrow>
   scan_existing new (pre @ rest) = scan_existing new rest"
proof (induction pre)
  case Nil
  show ?case by simp
next
  case (Cons e pre)
  obtain name m where e: "e = (name, m)" by (cases e)
  from Cons.prems have miss: "\<not> reaches_threshold new m" by (simp add: e)
  from Cons.prems have "\<forall>e\<in>set pre. \<not> reaches_threshold new (snd e)" by simp
  then have IH: "scan_existing new (pre @ rest) = scan_existing new rest" by (rule Cons.IH)
  have "scan_existing new ((name, m) # (pre @ rest)) = scan_existing new (pre @ rest)"
    unfolding scan_step using miss by simp
  with IH show ?case by (simp only: e append_Cons)
qed

lemma scan_drop:
  "\<not> reaches_threshold new m \<Longrightarrow>
   scan_existing new (pre @ (name, m) # post) = scan_existing new (pre @ post)"
proof (induction pre)
  case Nil
  then show ?case unfolding append_Nil scan_step by simp
next
  case (Cons e pre)
  obtain name' m' where e: "e = (name', m')" by (cases e)
  from Cons.IH [OF Cons.prems] show ?case
    unfolding e append_Cons scan_step by simp
qed

lemma hit_nonzero: "fge s (Fin (1 / 2)) \<Longrightarrow> fmul s (Fin 100) \<noteq> Fin 0"
  by (cases s) auto

lemma hit_ge_50: "fge s (Fin (1 / 2)) \<Longrightarrow> fge (fmul s (Fin 100)) (Fin 50)"
  by (cases s) auto

lemma scan_zero_iff:
  "scan_existing new es = Fin 0 \<longleftrightarrow> (\<forall>e\<in>set es. \<not> reaches_threshold new (snd e))"
proof (induction es)
  case Nil
  show ?case by simp
next
  case (Cons e es)
  obtain name m where e: "e = (name, m)" by (cases e)
  show ?case
  proof (cases "reaches_threshold new m")
    case True
    then obtain s where s: "entry_similarity new m = Some s" and ge: "fge s (Fin (1 / 2))"
      by (auto simp: reaches_threshold_def split: option.splits)
    from hit_nonzero [OF ge] True show ?thesis
      unfolding e scan_step by (simp add: s)
  next
    case False
    with Cons.IH show ?thesis
      unfolding e scan_step by simp
  qed
qed

lemma scan_range:
  "scan_existing new es = Fin 0 \<or> fge (scan_existing new es) (Fin 50)"
proof (induction es)
  case Nil
  show ?case by simp
next
  case (Cons e es)
  obtain name m where e: "e = (name, m)" by (cases e)
  show ?case
  proof (cases "reaches_threshold new m")
    case True
    then obtain s where s: "entry_similarity new m = Some s" and ge: "fge s (Fin (1 / 2))"
      by (auto simp: reaches_threshold_def split: option.splits)
    from hit_ge_50 [OF ge] True show ?thesis
      unfolding e scan_step by (simp add: s)
  next
    case False
    with Cons.IH show ?thesis
      unfolding e scan_step by simp
  qed
qed

lemma comparison_error_below: "comparison_error new m \<Longrightarrow> \<not> reaches_threshold new m"
  by (auto simp: comparison_error_def reaches_threshold_def entry_similarity_def
        compute_similarity_def split: sum.splits)

lemma length_mismatch_raises:
  "length a \<noteq> length b \<Longrightarrow> similarity_body a b = Inl ValueError"
  by (simp add: similarity_body_def cosine_def np_dot_def)

text \<open>
  The definitions that an evaluation of the fingerprint and of the endpoint
  unfolds.
\<close>

lemmas mfcc_defs = get_mfcc_def librosa_mfcc_def normalize_row_def np_mean_def np_std_def
  json_dumps_def fsub_def

lemmas upload_defs = upload_audio_def Let_def upload_to_ipfs_def strip_def is_space_def
  UPLOAD_FOLDER_def check_audio_similarity_def store_audio_metadata_def sql_insert_def
  sql_delete_def example_env_def ipfs_down_env_def example_server_def twin_server_def
  example_row_def reported_similarity_def save_upload_def file_path_of_def
  unique_filename_of_def

text \<open>
  C1: for every candidate fingerprint and every table, when the rows before an
  entry do not reach the threshold 0.50 and the entry's score \<open>s\<close> does,
  \<^verbatim>\<open>check_audio_similarity\<close> returns that entry's score (as a percentage,
  \<open>s * 100\<close>) whatever rows \<open>post\<close> follow it: later entries are not examined, and
  the score of a later, more similar entry is never returned.
\<close>

theorem first_match_returned:
  assumes "get_mfcc fs audio_path = Some new"
      and "map (\<lambda>r. (filename r, mfcc r)) (rows table) = pre @ (name, mfcc_str) # post"
      and "\<forall>e\<in>set pre. \<not> reaches_threshold new (snd e)"
      and "entry_similarity new mfcc_str = Some s"
      and "fge s (Fin (1 / 2))"
  shows "check_audio_similarity fs table audio_path = fmul s (Fin 100)"
proof -
  have hit: "reaches_threshold new mfcc_str"
    using assms(4,5) by (simp add: reaches_threshold_def)
  have "scan_existing new (pre @ (name, mfcc_str) # post)
          = scan_existing new ((name, mfcc_str) # post)"
    using assms(3) by (rule scan_skip_prefix)
  also have "\<dots> = fmul s (Fin 100)"
    unfolding scan_step using hit assms(4) by simp
  finally show ?thesis
    unfolding check_audio_similarity_def assms(1) assms(2) by simp
qed

text \<open>
  At a table of three rows (a fingerprint of another length, one scoring 94/175,
  one scoring 1) the scan returns the second row's score.
\<close>

theorem first_match_returned_witness:
  "entry_similarity (JsonArray [Fin (- 1), Fin 1]) (JsonArray [Fin (- 7), Fin 1]) = Some (Fin (94 / 175))
   \<and> entry_similarity (JsonArray [Fin (- 1), Fin 1]) (JsonArray [Fin (- 1), Fin 1]) = Some (Fin 1)
   \<and> check_audio_similarity [''take.wav'' \<mapsto> Decoded [[Fin 1, Fin 3]]]
        \<lparr>rows = [example_row 1 ''a.wav'' [Fin 1], example_row 2 ''b.wav'' [Fin (- 7), Fin 1],
                 example_row 3 ''c.wav'' [Fin (- 1), Fin 1]], seq = 3\<rparr> ''take.wav''
       = Fin (376 / 7)"
  using first_match_returned [where fs = "[''take.wav'' \<mapsto> Decoded [[Fin 1, Fin 3]]]" and audio_path = "''take.wav''"
      and new = "JsonArray [Fin (- 1), Fin 1]"
      and table = "\<lparr>rows = [example_row 1 ''a.wav'' [Fin 1], example_row 2 ''b.wav'' [Fin (- 7), Fin 1],
                 example_row 3 ''c.wav'' [Fin (- 1), Fin 1]], seq = 3\<rparr>"
      and pre = "[(''a.wav'', JsonArray [Fin 1])]" and name = "''b.wav''"
      and mfcc_str = "JsonArray [Fin (- 7), Fin 1]"
      and post = "[(''c.wav'', JsonArray [Fin (- 1), Fin 1])]" and s = "Fin (94 / 175)"]
  by (simp add: mfcc_defs score_defs example_row_def entry_similarity_def reaches_threshold_def)

text \<open>
  C3: for every table entry whose comparison with the candidate goes wrong (a
  decoding error, a length mismatch or another exception inside
  \<^verbatim>\<open>compute_similarity\<close>, or a NaN score), \<^verbatim>\<open>check_audio_similarity\<close> gives
  the result it gives on the table without that entry: the entry is skipped, is
  never a match, and the scan goes on with the remaining entries.
\<close>

theorem comparison_error_skipped:
  assumes "get_mfcc fs audio_path = Some new"
      and "comparison_error new (mfcc r)"
  shows "check_audio_similarity fs (table\<lparr>rows := pre @ r # post\<rparr>) audio_path
           = check_audio_similarity fs (table\<lparr>rows := pre @ post\<rparr>) audio_path"
  unfolding check_audio_similarity_def assms(1)
  using scan_drop [OF comparison_error_below [OF assms(2)]] by simp

text \<open>
  A row whose fingerprint has another length than the candidate's is skipped, and
  the row after it is found.
\<close>

theorem comparison_error_skipped_witness:
  "comparison_error (JsonArray [Fin (- 1), Fin 1]) (mfcc (example_row 1 ''a.wav'' [Fin 1]))
   \<and> check_audio_similarity [''take.wav'' \<mapsto> Decoded [[Fin 1, Fin 3]]]
        (empty_table\<lparr>rows := [] @ example_row 1 ''a.wav'' [Fin 1]
                          # [example_row 3 ''c.wav'' [Fin (- 1), Fin 1]]\<rparr>) ''take.wav''
       = Fin 100"
  using comparison_error_skipped [where fs = "[''take.wav'' \<mapsto> Decoded [[Fin 1, Fin 3]]]" and audio_path = "''take.wav''"
      and new = "JsonArray [Fin (- 1), Fin 1]" and r = "example_row 1 ''a.wav'' [Fin 1]"
      and table = empty_table and pre = "[]" and post = "[example_row 3 ''c.wav'' [Fin (- 1), Fin 1]]"]
  by (simp add: mfcc_defs score_defs example_row_def comparison_error_def empty_table_def
        check_audio_similarity_def)

text \<open>
  C5: \<^verbatim>\<open>check_audio_similarity\<close> returns 0 in exactly these cases: the table is
  empty, the extraction of the candidate's fingerprint failed, or no entry's score
  reaches the threshold 0.50. In particular it returns 0 on an empty table.
\<close>

theorem not_duplicate_iff:
  "check_audio_similarity fs table audio_path = Fin 0 \<longleftrightarrow>
     (rows table = [] \<or> get_mfcc fs audio_path = None \<or>
      (\<exists>new. get_mfcc fs audio_path = Some new
           \<and> (\<forall>r\<in>set (rows table). \<not> reaches_threshold new (mfcc r))))"
proof (cases "get_mfcc fs audio_path")
  case None
  then show ?thesis by (simp add: check_audio_similarity_def)
next
  case (Some new)
  show ?thesis
    unfolding check_audio_similarity_def Some
    by (auto simp: scan_zero_iff)
qed

text \<open>
  A non-empty table whose only row does not reach the threshold, with a candidate
  whose fingerprint is extracted.
\<close>

theorem not_duplicate_iff_witness:
  "rows \<lparr>rows = [example_row 1 ''a.wav'' [Fin 1]], seq = 1\<rparr> \<noteq> []
   \<and> get_mfcc [''take.wav'' \<mapsto> Decoded [[Fin 1, Fin 3]]] ''take.wav'' \<noteq> None
   \<and> check_audio_similarity [''take.wav'' \<mapsto> Decoded [[Fin 1, Fin 3]]]
        \<lparr>rows = [example_row 1 ''a.wav'' [Fin 1]], seq = 1\<rparr> ''take.wav'' = Fin 0"
  using not_duplicate_iff [of "[''take.wav'' \<mapsto> Decoded [[Fin 1, Fin 3]]]"
      "\<lparr>rows = [example_row 1 ''a.wav'' [Fin 1]], seq = 1\<rparr>" "''take.wav''"]
  by (simp add: mfcc_defs score_defs example_row_def entry_similarity_def reaches_threshold_def)

text \<open>
  C9: for every candidate and every table the value returned by
  \<^verbatim>\<open>check_audio_similarity\<close> is exactly 0 or at least 50; no positive value below
  50 is returned.
\<close>

theorem scan_result_zero_or_at_least_50:
  "check_audio_similarity fs table audio_path = Fin 0
   \<or> fge (check_audio_similarity fs table audio_path) (Fin 50)"
proof (cases "get_mfcc fs audio_path")
  case None
  then show ?thesis by (simp add: check_audio_similarity_def)
next
  case (Some new)
  show ?thesis
    unfolding check_audio_similarity_def Some option.case by (rule scan_range)
qed

text \<open>
  A table whose only row scores 94/175: the value returned is 376/7, above 50.
\<close>

theorem scan_result_zero_or_at_least_50_witness:
  "check_audio_similarity [''take.wav'' \<mapsto> Decoded [[Fin 1, Fin 3]]]
        \<lparr>rows = [example_row 2 ''b.wav'' [Fin (- 7), Fin 1]], seq = 2\<rparr> ''take.wav'' = Fin (376 / 7)"
  using scan_result_zero_or_at_least_50 [of "[''take.wav'' \<mapsto> Decoded [[Fin 1, Fin 3]]]"
      "\<lparr>rows = [example_row 2 ''b.wav'' [Fin (- 7), Fin 1]], seq = 2\<rparr>" "''take.wav''"]
  by (simp add: mfcc_defs score_defs example_row_def check_audio_similarity_def)

section \<open>Delete, then insert\<close>

text \<open>
  A store that extracts a fingerprint leaves the rows of the other filenames and
  one new row; the filenames of the table stay pairwise distinct.
\<close>

lemma store_rows:
  "get_mfcc fs file_path = Some v \<Longrightarrow>
   rows (store_audio_metadata fs now name file_path ipfs tx table)
     = filter (\<lambda>r. filename r \<noteq> name) (rows table)
       @ [\<lparr>row_id = Suc (seq table), filename = name, mfcc = v, ipfs_hash = ipfs,
            blockchain_tx = tx, timestamp = now\<rparr>]"
  by (simp add: store_audio_metadata_def sql_insert_def sql_delete_def)

lemma store_one:
  "get_mfcc fs file_path = Some v \<Longrightarrow>
   length (filter (\<lambda>r. filename r = name)
             (rows (store_audio_metadata fs now name file_path ipfs tx table))) = 1"
  by (simp add: store_rows)

lemma store_distinct:
  "distinct (map filename (rows table)) \<Longrightarrow>
   distinct (map filename (rows (store_audio_metadata fs now name file_path ipfs tx table)))"
proof (cases "get_mfcc fs file_path")
  case None
  assume "distinct (map filename (rows table))"
  with None show ?thesis by (simp add: store_audio_metadata_def)
next
  case (Some v)
  assume "distinct (map filename (rows table))"
  then show ?thesis
    unfolding store_rows [OF Some] by (auto simp: distinct_map_filter)
qed

lemma run_stores_distinct:
  "distinct (map filename (rows table)) \<Longrightarrow>
   distinct (map filename (rows (run_stores calls table)))"
proof (induction calls arbitrary: table)
  case Nil
  then show ?case by simp
next
  case (Cons c calls)
  obtain fs now name file_path ipfs tx where c: "c = (fs, now, name, file_path, ipfs, tx)"
    by (cases c)
  from Cons.prems have "distinct (map filename
      (rows (store_audio_metadata fs now name file_path ipfs tx table)))"
    by (rule store_distinct)
  then show ?case unfolding c run_stores.simps by (rule Cons.IH)
qed

lemma distinct_count: "distinct (map f xs) \<Longrightarrow> length (filter (\<lambda>r. f r = n) xs) \<le> 1"
proof (induction xs)
  case Nil
  show ?case by simp
next
  case (Cons x xs)
  show ?case
  proof (cases "f x = n")
    case True
    with Cons.prems have "n \<notin> f ` set xs" by auto
    then have "filter (\<lambda>r. f r = n) xs = []" by (auto simp: filter_empty_conv)
    with True show ?thesis by simp
  next
    case False
    with Cons show ?thesis by simp
  qed
qed

text \<open>
  C8: \<^verbatim>\<open>store_audio_metadata\<close> deletes the rows of its filename and then inserts
  one. Called twice with the same filename and the same file (so the same
  fingerprint), it leaves exactly one row of that filename; and after any sequence
  of stores on a new table there is at most one row for every filename.
\<close>

theorem store_replaces_record:
  assumes "get_mfcc fs file_path = Some v"
  shows "length (filter (\<lambda>r. filename r = name)
           (rows (store_audio_metadata fs second_time name file_path ipfs tx
                   (store_audio_metadata fs first_time name file_path ipfs tx table)))) = 1
         \<and> (\<forall>n. length (filter (\<lambda>r. filename r = n) (rows (run_stores calls empty_table))) \<le> 1)"
proof
  show "length (filter (\<lambda>r. filename r = name)
           (rows (store_audio_metadata fs second_time name file_path ipfs tx
                   (store_audio_metadata fs first_time name file_path ipfs tx table)))) = 1"
    using assms by (rule store_one)
next
  have d: "distinct (map filename (rows (run_stores calls empty_table)))"
    by (rule run_stores_distinct) (simp add: empty_table_def)
  show "\<forall>n. length (filter (\<lambda>r. filename r = n) (rows (run_stores calls empty_table))) \<le> 1"
    using distinct_count [OF d] by blast
qed

text \<open>
  Two stores of one file under one filename on the new table leave the single row
  of the second store.
\<close>

theorem store_replaces_record_witness:
  "rows (store_audio_metadata [''take.wav'' \<mapsto> Decoded [[Fin 1, Fin 3]]] 2 ''u1_a.wav'' ''take.wav''
           ''Qm1'' ''0x1''
          (store_audio_metadata [''take.wav'' \<mapsto> Decoded [[Fin 1, Fin 3]]] 1 ''u1_a.wav''
             ''take.wav'' ''Qm1'' ''0x1'' empty_table))
     = [\<lparr>row_id = 2, filename = ''u1_a.wav'', mfcc = JsonArray [Fin (- 1), Fin 1],
          ipfs_hash = ''Qm1'', blockchain_tx = ''0x1'', timestamp = 2\<rparr>]"
  using store_replaces_record [where fs = "[''take.wav'' \<mapsto> Decoded [[Fin 1, Fin 3]]]" and file_path = "''take.wav''"
      and v = "JsonArray [Fin (- 1), Fin 1]" and name = "''u1_a.wav''" and ipfs = "''Qm1''"
      and tx = "''0x1''" and first_time = 1 and second_time = 2 and table = empty_table and calls = "[]"]
  by (simp add: mfcc_defs store_audio_metadata_def sql_insert_def sql_delete_def empty_table_def)

section \<open>A channel without variance\<close>









section \<open>The two thresholds of the endpoint\<close>

text \<open>
  The endpoint in terms of the values it binds, a duplicate flag implies an
  extracted fingerprint, and a store with a fingerprint leaves its row.
\<close>

lemma upload_unfold:
  "upload_audio env (Some (f, c)) s =
     (if fge (reported_similarity env f c s) (Fin 75)
      then ((TooSimilar (reported_similarity env f c s), 400),
            (save_upload env f c s)\<lparr>files :=
               (files (save_upload env f c s))(file_path_of env f := None)\<rparr>)
      else
       (case upload_to_ipfs env (file_path_of env f) of
          None \<Rightarrow> ((Error ''IPFS upload failed'', 500), save_upload env f c s)
        | Some ipfs \<Rightarrow>
           if ipfs = [] then ((Error ''IPFS upload failed'', 500), save_upload env f c s)
           else
            (case register_audio env (secure_filename env f) ipfs of
               Inl e \<Rightarrow> ((ErrorDetails ''Blockchain registration failed'', 500),
                          save_upload env f c s)
             | Inr tx \<Rightarrow>
                ((AudioStored ipfs tx, 200),
                 (save_upload env f c s)\<lparr>db :=
                    store_audio_metadata (files (save_upload env f c s)) (clock env)
                      (unique_filename_of env f) (file_path_of env f) ipfs tx
                      (db (save_upload env f c s))\<rparr>))))"
  by (simp add: upload_audio_def Let_def save_upload_def reported_similarity_def
        file_path_of_def unique_filename_of_def split: option.splits sum.splits)

lemma flagged_has_fingerprint:
  "fge (check_audio_similarity fs table p) (Fin 50) \<Longrightarrow> \<exists>v. get_mfcc fs p = Some v"
  by (cases "get_mfcc fs p") (simp_all add: check_audio_similarity_def)

lemma stored_row:
  "get_mfcc fs file_path = Some v \<Longrightarrow>
   \<exists>r\<in>set (rows (store_audio_metadata fs now name file_path ipfs tx table)).
      filename r = name \<and> ipfs_hash r = ipfs \<and> blockchain_tx r = tx"
  by (simp add: store_rows)

text \<open>
  C6 as it is stated fails: an upload whose reported similarity is 376/7 percent
  (at least 50, below 75) is not rejected for similarity, but the IPFS command exits
  with status 1, the endpoint answers 500 and the table is unchanged: the
  submission is not stored.
\<close>

theorem flagged_upload_unstored_when_ipfs_fails:
  "reported_similarity ipfs_down_env ''a.wav'' (Decoded [[Fin 1, Fin 3]]) example_server
       = Fin (376 / 7)
   \<and> fst (upload_audio ipfs_down_env (Some (''a.wav'', Decoded [[Fin 1, Fin 3]])) example_server)
       = (Error ''IPFS upload failed'', 500)
   \<and> db (snd (upload_audio ipfs_down_env (Some (''a.wav'', Decoded [[Fin 1, Fin 3]]))
         example_server)) = db example_server"
  by (simp add: upload_defs mfcc_defs score_defs)

text \<open>
  C6, amended: the endpoint uses two thresholds. An upload whose reported
  similarity is at least 75 percent is rejected with status 400 and its saved
  file is removed. An upload flagged by the detector (at least 50 percent) but
  below 75 is not rejected: when the IPFS upload gives a non-empty hash and the
  ledger registration succeeds, the answer is 200, the file is kept and a row
  with its unique filename, the hash and the transaction is in the table. When
  an upload below 75 percent meets an IPFS upload that fails or gives an empty
  hash, or a ledger registration that raises, the answer is 500, the table is
  unchanged and the file is kept.
\<close>

theorem two_threshold_gate:
  "(fge (reported_similarity env f c s) (Fin 75) \<longrightarrow>
      upload_audio env (Some (f, c)) s =
        ((TooSimilar (reported_similarity env f c s), 400),
         (save_upload env f c s)\<lparr>files :=
            (files (save_upload env f c s))(file_path_of env f := None)\<rparr>))
   \<and> (fge (reported_similarity env f c s) (Fin 50)
        \<and> \<not> fge (reported_similarity env f c s) (Fin 75)
        \<and> upload_to_ipfs env (file_path_of env f) = Some h \<and> h \<noteq> []
        \<and> register_audio env (secure_filename env f) h = Inr tx \<longrightarrow>
      fst (upload_audio env (Some (f, c)) s) = (AudioStored h tx, 200)
      \<and> files (snd (upload_audio env (Some (f, c)) s)) (file_path_of env f) = Some c
      \<and> (\<exists>r\<in>set (rows (db (snd (upload_audio env (Some (f, c)) s)))).
            filename r = unique_filename_of env f \<and> ipfs_hash r = h \<and> blockchain_tx r = tx))
   \<and> (\<not> fge (reported_similarity env f c s) (Fin 75)
        \<and> (upload_to_ipfs env (file_path_of env f) = None
             \<or> upload_to_ipfs env (file_path_of env f) = Some []
             \<or> (\<exists>h' e. upload_to_ipfs env (file_path_of env f) = Some h' \<and> h' \<noteq> []
                    \<and> register_audio env (secure_filename env f) h' = Inl e)) \<longrightarrow>
      snd (fst (upload_audio env (Some (f, c)) s)) = 500
      \<and> db (snd (upload_audio env (Some (f, c)) s)) = db s
      \<and> files (snd (upload_audio env (Some (f, c)) s)) (file_path_of env f) = Some c)"
proof (intro conjI impI)
  assume "fge (reported_similarity env f c s) (Fin 75)"
  then show "upload_audio env (Some (f, c)) s =
        ((TooSimilar (reported_similarity env f c s), 400),
         (save_upload env f c s)\<lparr>files :=
            (files (save_upload env f c s))(file_path_of env f := None)\<rparr>)"
    by (simp add: upload_unfold)
next
  assume "fge (reported_similarity env f c s) (Fin 50)
        \<and> \<not> fge (reported_similarity env f c s) (Fin 75)
        \<and> upload_to_ipfs env (file_path_of env f) = Some h \<and> h \<noteq> []
        \<and> register_audio env (secure_filename env f) h = Inr tx"
  then show "fst (upload_audio env (Some (f, c)) s) = (AudioStored h tx, 200)"
    by (simp add: upload_unfold)
next
  assume "fge (reported_similarity env f c s) (Fin 50)
        \<and> \<not> fge (reported_similarity env f c s) (Fin 75)
        \<and> upload_to_ipfs env (file_path_of env f) = Some h \<and> h \<noteq> []
        \<and> register_audio env (secure_filename env f) h = Inr tx"
  then show "files (snd (upload_audio env (Some (f, c)) s)) (file_path_of env f) = Some c"
    by (simp add: upload_unfold save_upload_def)
next
  assume H: "fge (reported_similarity env f c s) (Fin 50)
        \<and> \<not> fge (reported_similarity env f c s) (Fin 75)
        \<and> upload_to_ipfs env (file_path_of env f) = Some h \<and> h \<noteq> []
        \<and> register_audio env (secure_filename env f) h = Inr tx"
  then have "fge (check_audio_similarity (files (save_upload env f c s))
                 (db (save_upload env f c s)) (file_path_of env f)) (Fin 50)"
    by (simp add: reported_similarity_def)
  then obtain v where v: "get_mfcc (files (save_upload env f c s)) (file_path_of env f) = Some v"
    using flagged_has_fingerprint by blast
  from H have "db (snd (upload_audio env (Some (f, c)) s)) =
      store_audio_metadata (files (save_upload env f c s)) (clock env)
        (unique_filename_of env f) (file_path_of env f) h tx (db (save_upload env f c s))"
    by (simp add: upload_unfold)
  then show "\<exists>r\<in>set (rows (db (snd (upload_audio env (Some (f, c)) s)))).
            filename r = unique_filename_of env f \<and> ipfs_hash r = h \<and> blockchain_tx r = tx"
    using stored_row [OF v] by simp
next
  assume "\<not> fge (reported_similarity env f c s) (Fin 75)
        \<and> (upload_to_ipfs env (file_path_of env f) = None
             \<or> upload_to_ipfs env (file_path_of env f) = Some []
             \<or> (\<exists>h' e. upload_to_ipfs env (file_path_of env f) = Some h' \<and> h' \<noteq> []
                    \<and> register_audio env (secure_filename env f) h' = Inl e))"
  then show "snd (fst (upload_audio env (Some (f, c)) s)) = 500"
    by (auto simp: upload_unfold)
next
  assume "\<not> fge (reported_similarity env f c s) (Fin 75)
        \<and> (upload_to_ipfs env (file_path_of env f) = None
             \<or> upload_to_ipfs env (file_path_of env f) = Some []
             \<or> (\<exists>h' e. upload_to_ipfs env (file_path_of env f) = Some h' \<and> h' \<noteq> []
                    \<and> register_audio env (secure_filename env f) h' = Inl e))"
  then show "db (snd (upload_audio env (Some (f, c)) s)) = db s"
    by (auto simp: upload_unfold save_upload_def)
next
  assume "\<not> fge (reported_similarity env f c s) (Fin 75)
        \<and> (upload_to_ipfs env (file_path_of env f) = None
             \<or> upload_to_ipfs env (file_path_of env f) = Some []
             \<or> (\<exists>h' e. upload_to_ipfs env (file_path_of env f) = Some h' \<and> h' \<noteq> []
                    \<and> register_audio env (secure_filename env f) h' = Inl e))"
  then show "files (snd (upload_audio env (Some (f, c)) s)) (file_path_of env f) = Some c"
    by (auto simp: upload_unfold save_upload_def)
qed

text \<open>
  The same upload against a table holding a fingerprint that scores 94/175
  (stored), against a table holding its own fingerprint (rejected, and the
  server is as before), and with the IPFS command exiting with status 1.
\<close>

theorem two_threshold_gate_witness:
  "reported_similarity example_env ''a.wav'' (Decoded [[Fin 1, Fin 3]]) example_server = Fin (376 / 7)
   \<and> fst (upload_audio example_env (Some (''a.wav'', Decoded [[Fin 1, Fin 3]])) example_server)
       = (AudioStored ''Qm1'' ''0x1'', 200)
   \<and> map filename (rows (db (snd (upload_audio example_env
         (Some (''a.wav'', Decoded [[Fin 1, Fin 3]])) example_server))))
       = [''old.wav'', ''u1_a.wav'']
   \<and> upload_audio example_env (Some (''a.wav'', Decoded [[Fin 1, Fin 3]])) twin_server
       = ((TooSimilar (Fin 100), 400), twin_server)
   \<and> snd (fst (upload_audio ipfs_down_env (Some (''a.wav'', Decoded [[Fin 1, Fin 3]]))
         example_server)) = 500"
  using two_threshold_gate [of example_env "''a.wav''" "Decoded [[Fin 1, Fin 3]]" example_server
        "''Qm1''" "''0x1''"]
    two_threshold_gate [of example_env "''a.wav''" "Decoded [[Fin 1, Fin 3]]" twin_server
        "''Qm1''" "''0x1''"]
    two_threshold_gate [of ipfs_down_env "''a.wav''" "Decoded [[Fin 1, Fin 3]]" example_server
        "''Qm1''" "''0x1''"]
  by (simp add: upload_defs mfcc_defs score_defs)

end
